theory Spec2Isabelle
  imports Complex_Main
begin

section \<open>Numbers\<close>

text \<open>
  The pipeline computes on Python floats (box coordinates, IoU, fps, progress). They are
  modelled as exact rationals: every comparison and quotient below is the exact one, and the
  rounding of IEEE doubles is left out (so the threshold \<open>0.3\<close> is 3/10). Python ints are \<open>int\<close>; loop counters that start
  at 0 and only grow are \<open>nat\<close>.
\<close>

definition py_int :: "rat \<Rightarrow> int" where
  \<comment> \<open>Python's \<open>int(f)\<close> on a float: truncation towards zero.\<close>
  "py_int q = (if 0 \<le> q then \<lfloor>q\<rfloor> else \<lceil>q\<rceil>)"

definition py_round :: "rat \<Rightarrow> int" where
  \<comment> \<open>Python's \<open>round(f)\<close>: to the nearest integer, a tie going to the even one.\<close>
  "py_round q =
     (let f = \<lfloor>q\<rfloor>; d = q - of_int f
      in if d < 1 / 2 then f
         else if 1 / 2 < d then f + 1
         else if even f then f else f + 1)"

section \<open>Boxes and IoU (\<open>VideoProcessor._calculate_iou\<close>)\<close>

record bbox =
  box_x :: rat
  box_y :: rat
  box_width :: rat
  box_height :: rat

definition calculate_iou :: "bbox \<Rightarrow> bbox \<Rightarrow> rat" where
  "calculate_iou box1 box2 =
     (let x1_min = box_x box1; y1_min = box_y box1;
          x1_max = x1_min + box_width box1; y1_max = y1_min + box_height box1;
          x2_min = box_x box2; y2_min = box_y box2;
          x2_max = x2_min + box_width box2; y2_max = y2_min + box_height box2;
          inter_x_min = max x1_min x2_min;
          inter_y_min = max y1_min y2_min;
          inter_x_max = min x1_max x2_max;
          inter_y_max = min y1_max y2_max
      in if inter_x_max < inter_x_min \<or> inter_y_max < inter_y_min then 0
         else
           let inter_area = (inter_x_max - inter_x_min) * (inter_y_max - inter_y_min);
               box1_area = box_width box1 * box_height box1;
               box2_area = box_width box2 * box_height box2;
               union_area = box1_area + box2_area - inter_area
           in if 0 < union_area then inter_area / union_area else 0)"




text \<open>A box literal, for the examples.\<close>

definition box :: "rat \<Rightarrow> rat \<Rightarrow> rat \<Rightarrow> rat \<Rightarrow> bbox" where
  "box a b c d = \<lparr>box_x = a, box_y = b, box_width = c, box_height = d\<rparr>"

section \<open>Detections and the tracker (\<open>VideoProcessor._assign_track_ids\<close>)\<close>

text \<open>
  A detection is the dict the detector returns (\<open>bbox\<close>, \<open>label\<close>, \<open>confidence\<close>);
  the tracker adds the key \<open>track_id\<close> to it. The detections of the previous analyzed
  frame all carry a \<open>track_id\<close>, so they have the extended record type.
\<close>

record detection =
  det_bbox :: bbox
  det_label :: string
  det_confidence :: rat

record tracked = detection +
  track_id :: int

definition with_track_id :: "detection \<Rightarrow> int \<Rightarrow> tracked" where
  \<comment> \<open>\<open>detection['track_id'] = n\<close>\<close>
  "with_track_id d n =
     \<lparr>det_bbox = det_bbox d, det_label = det_label d, det_confidence = det_confidence d,
      track_id = n\<rparr>"

text \<open>First frame (no previous detections): fresh ids in input order.\<close>

fun assign_new_ids :: "detection list \<Rightarrow> int \<Rightarrow> tracked list \<times> int" where
  "assign_new_ids [] next_track_id = ([], next_track_id)"
| "assign_new_ids (d # ds) next_track_id =
     (let (out, n) = assign_new_ids ds (next_track_id + 1)
      in (with_track_id d next_track_id # out, n))"

text \<open>The inner loop over \<open>previous_detections\<close>, carrying \<open>(best_iou, best_match)\<close>.\<close>

fun best_match_loop ::
  "detection \<Rightarrow> int set \<Rightarrow> tracked list \<Rightarrow> rat \<times> tracked option \<Rightarrow> rat \<times> tracked option"
where
  "best_match_loop curr_det matched [] best = best"
| "best_match_loop curr_det matched (prev_det # rest) (best_iou, best_match) =
     (if track_id prev_det \<in> matched then
        best_match_loop curr_det matched rest (best_iou, best_match)
      else if det_label curr_det \<noteq> det_label prev_det then
        best_match_loop curr_det matched rest (best_iou, best_match)
      else
        let iou = calculate_iou (det_bbox curr_det) (det_bbox prev_det)
        in if best_iou < iou then best_match_loop curr_det matched rest (iou, Some prev_det)
           else best_match_loop curr_det matched rest (best_iou, best_match))"

text \<open>The outer loop over \<open>current_detections\<close>, carrying \<open>matched\<close> and
  \<open>next_track_id\<close>.\<close>

fun match_loop ::
  "detection list \<Rightarrow> tracked list \<Rightarrow> int set \<Rightarrow> int \<Rightarrow> tracked list \<times> int"
where
  "match_loop [] previous_detections matched next_track_id = ([], next_track_id)"
| "match_loop (curr_det # rest) previous_detections matched next_track_id =
     (case snd (best_match_loop curr_det matched previous_detections (3 / 10, None)) of
        Some best_match \<Rightarrow>
          let (out, n) = match_loop rest previous_detections
                           (insert (track_id best_match) matched) next_track_id
          in (with_track_id curr_det (track_id best_match) # out, n)
      | None \<Rightarrow>
          let (out, n) = match_loop rest previous_detections matched (next_track_id + 1)
          in (with_track_id curr_det next_track_id # out, n))"

definition assign_track_ids ::
  "detection list \<Rightarrow> tracked list \<Rightarrow> int \<Rightarrow> tracked list \<times> int"
where
  "assign_track_ids current_detections previous_detections next_track_id =
     (if previous_detections = [] then assign_new_ids current_detections next_track_id
      else match_loop current_detections previous_detections {} next_track_id)"

subsection \<open>The matching rule in the specification's words\<close>

text \<open>
  The candidates of a detection are the previous tracks not yet consumed in this call that
  share its label, in the order of the previous list. The selected one is the first
  candidate whose IoU is the maximum over all candidates, provided that maximum is above
  0.3.
\<close>

definition candidates :: "detection \<Rightarrow> int set \<Rightarrow> tracked list \<Rightarrow> tracked list" where
  "candidates c consumed prev =
     filter (\<lambda>p. track_id p \<notin> consumed \<and> det_label p = det_label c) prev"

definition spec_select :: "detection \<Rightarrow> int set \<Rightarrow> tracked list \<Rightarrow> tracked option" where
  "spec_select c consumed prev =
     (let cs = candidates c consumed prev;
          ious = map (\<lambda>p. calculate_iou (det_bbox c) (det_bbox p)) cs
      in if cs = [] then None
         else if 3 / 10 < Max (set ious)
           then find (\<lambda>p. calculate_iou (det_bbox c) (det_bbox p) = Max (set ious)) cs
           else None)"

fun spec_update ::
  "detection list \<Rightarrow> tracked list \<Rightarrow> int set \<Rightarrow> int \<Rightarrow> tracked list \<times> int"
where
  "spec_update [] prev consumed next_track_id = ([], next_track_id)"
| "spec_update (c # cs) prev consumed next_track_id =
     (case spec_select c consumed prev of
        Some p \<Rightarrow>
          let (out, n) = spec_update cs prev (insert (track_id p) consumed) next_track_id
          in (with_track_id c (track_id p) # out, n)
      | None \<Rightarrow>
          let (out, n) = spec_update cs prev consumed (next_track_id + 1)
          in (with_track_id c next_track_id # out, n))"

section \<open>Text of numbers\<close>

text \<open>The decimal text of an int, as an f-string writes it.\<close>

definition digit_char :: "nat \<Rightarrow> char" where
  "digit_char d = ''0123456789'' ! d"

function show_nat :: "nat \<Rightarrow> string" where
  "show_nat n = (if n < 10 then [digit_char n] else show_nat (n div 10) @ [digit_char (n mod 10)])"
  by pat_completeness auto
termination
  by (relation "measure id") auto

declare show_nat.simps [simp del]

definition show_int :: "int \<Rightarrow> string" where
  "show_int i = (if i < 0 then ''-'' @ show_nat (nat (- i)) else show_nat (nat i))"

definition format_1f :: "rat \<Rightarrow> string" where
  \<comment> \<open>\<open>f"{q:.1f}"\<close>: one decimal, rounded to nearest, ties to even.\<close>
  "format_1f q =
     (let t = py_round (\<bar>q\<bar> * 10)
      in (if q < 0 then ''-'' else [])
         @ show_nat (nat (t div 10)) @ ''.'' @ show_nat (nat (t mod 10)))"

section \<open>Exceptions\<close>

datatype py_exception =
    ZeroDivisionError string
  | KeyError string
  | CollaboratorError string

fun exn_str :: "py_exception \<Rightarrow> string" where
  \<comment> \<open>\<open>str(e)\<close>\<close>
  "exn_str (ZeroDivisionError m) = m"
| "exn_str (KeyError k) = [CHR 0x27] @ k @ [CHR 0x27]"
| "exn_str (CollaboratorError m) = m"

datatype http_error = HTTPException nat string

section \<open>Job records and the callbacks of \<open>process_video_task\<close>\<close>

text \<open>
  One entry of the module-level dict \<open>processing_status\<close>. The key \<open>logs\<close> is looked up
  with \<open>"logs" not in ...\<close> and \<open>.get("logs", [])\<close>, so it is optional here.
\<close>

record job_status =
  status :: string
  progress :: rat
  message :: string
  logs :: "string list option"

definition logs_of :: "job_status \<Rightarrow> string list" where
  \<comment> \<open>\<open>status.get("logs", [])\<close>\<close>
  "logs_of st = (case logs st of None \<Rightarrow> [] | Some l \<Rightarrow> l)"

definition update_progress :: "rat \<Rightarrow> string option \<Rightarrow> job_status \<Rightarrow> job_status" where
  "update_progress p msg st =
     (let st1 = st\<lparr>progress := p\<rparr>
      in if msg \<noteq> None \<and> msg \<noteq> Some []
         then st1\<lparr>message := the msg\<rparr>
         else st1\<lparr>message := ''Processing... '' @ format_1f p @ ''%''\<rparr>)"

definition log_message :: "string \<Rightarrow> job_status \<Rightarrow> job_status" where
  "log_message msg st =
     (let l = logs_of st @ [msg]
      in st\<lparr>logs := Some (if 50 < length l then drop (length l - 50) l else l)\<rparr>)"

section \<open>The pipeline (\<open>VideoProcessor.process_video\<close>)\<close>

record product =
  product_id :: string
  title :: string
  brand :: "string option"
  price :: "rat option"
  currency :: "string option"
  image_url :: string
  buy_url :: string
  category :: "string option"
  confidence :: rat

text \<open>The dict \<open>_process_tracked_object\<close> returns; the fallback has no \<open>mask_url\<close>.\<close>

record product_info =
  info_track_id :: int
  info_category :: string
  info_detection_method :: string
  info_mask_url :: "string option"
  info_product :: "product option"

record frame_detection =
  fd_track_id :: int
  fd_bbox :: bbox
  fd_class :: string
  fd_confidence :: rat

text \<open>The tracking artifact (\<open>output_data\<close>), written as JSON.\<close>

record artifact =
  art_video_id :: string
  art_fps :: rat
  art_total_frames :: int
  art_tracks_by_frame :: "int \<rightharpoonup> frame_detection list"
  art_object_products :: "int \<rightharpoonup> product_info"

text \<open>
  What \<open>cv2.VideoCapture(path)\<close> gives: whether it is opened, the two properties read
  with \<open>cap.get\<close>, and the frames that \<open>cap.read()\<close> returns before its first failure.
  The constructor does not raise on a file it cannot open: the capture is then not opened
  and its properties read 0.
\<close>

record 'f capture =
  cap_opened :: bool
  cap_fps :: rat
  cap_frame_count :: rat
  cap_frames :: "'f list"

text \<open>
  The collaborators are opaque and fallible: each call takes the state of the outside
  world and returns a result or an exception, and the next state. \<open>segment_with_box\<close>
  stands for the SAM call together with the frame and mask file handling around it in the
  \<open>try\<close> block of \<open>_process_tracked_object\<close>.
\<close>

record ('f, 'w) collaborators =
  video_capture :: "string \<Rightarrow> 'f capture"
  detect_products :: "'f \<Rightarrow> 'w \<Rightarrow> (py_exception + detection list) \<times> 'w"
  segment_with_box :: "'f \<Rightarrow> bbox \<Rightarrow> string \<Rightarrow> int \<Rightarrow> 'w \<Rightarrow> (py_exception + string) \<times> 'w"
  search_products :: "string \<Rightarrow> nat \<Rightarrow> 'w \<Rightarrow> (py_exception + product list) \<times> 'w"

record callbacks =
  progress_callback :: "(rat \<Rightarrow> string \<Rightarrow> job_status \<Rightarrow> job_status) option"
  log_callback :: "(string \<Rightarrow> job_status \<Rightarrow> job_status) option"

definition call_log :: "callbacks \<Rightarrow> string \<Rightarrow> job_status \<Rightarrow> job_status" where
  \<comment> \<open>\<open>if log_callback: await log_callback(msg)\<close>\<close>
  "call_log cbs msg j = (case log_callback cbs of None \<Rightarrow> j | Some f \<Rightarrow> f msg j)"

definition first_product :: "product list \<Rightarrow> product option" where
  \<comment> \<open>\<open>products[0] if products else None\<close>\<close>
  "first_product products = (case products of [] \<Rightarrow> None | p # _ \<Rightarrow> Some p)"

definition fallback_info ::
  "('f, 'w) collaborators \<Rightarrow> 'a detection_scheme \<Rightarrow> int \<Rightarrow> 'w \<Rightarrow> (py_exception + product_info) \<times> 'w"
where
  \<comment> \<open>the \<open>except\<close> branch\<close>
  "fallback_info env det tid w =
     (case search_products env (det_label det) 1 w of
        (Inl e, w1) \<Rightarrow> (Inl e, w1)
      | (Inr products, w1) \<Rightarrow>
          (Inr \<lparr>info_track_id = tid, info_category = det_label det,
                info_detection_method = ''owlvit'', info_mask_url = None,
                info_product = first_product products\<rparr>, w1))"

definition process_tracked_object ::
  "('f, 'w) collaborators \<Rightarrow> 'f \<Rightarrow> 'a detection_scheme \<Rightarrow> int \<Rightarrow> string \<Rightarrow> int \<Rightarrow> 'w
     \<Rightarrow> (py_exception + product_info) \<times> 'w"
where
  "process_tracked_object env frame det tid vid ts w =
     (case segment_with_box env frame (det_bbox det) vid ts w of
        (Inl e, w1) \<Rightarrow> fallback_info env det tid w1
      | (Inr mask_result, w1) \<Rightarrow>
          (case search_products env (det_label det) 1 w1 of
             (Inl e, w2) \<Rightarrow> fallback_info env det tid w2
           | (Inr products, w2) \<Rightarrow>
               (Inr \<lparr>info_track_id = tid, info_category = det_label det,
                     info_detection_method = ''owlvit_sam'',
                     info_mask_url = Some (''/static/masks/'' @ vid @ ''/track_'' @ show_int tid
                                             @ ''_frame_'' @ show_int ts @ ''.png''),
                     info_product = first_product products\<rparr>, w2)))"

definition sample_rate :: "rat \<Rightarrow> int" where
  \<comment> \<open>\<open>max(1, int(fps / 2))\<close>\<close>
  "sample_rate fps = max 1 (py_int (fps / 2))"

definition is_sampled :: "rat \<Rightarrow> nat \<Rightarrow> bool" where
  \<comment> \<open>\<open>frame_num % sample_rate == 0\<close>\<close>
  "is_sampled fps frame_num \<longleftrightarrow> int frame_num mod sample_rate fps = 0"

definition timestamp_ms :: "nat \<Rightarrow> rat \<Rightarrow> py_exception + int" where
  \<comment> \<open>\<open>int((frame_num / fps) * 1000)\<close>\<close>
  "timestamp_ms frame_num fps =
     (if fps = 0 then Inl (ZeroDivisionError ''float division by zero'')
      else Inr (py_int (of_nat frame_num / fps * 1000)))"

text \<open>
  The local variables of \<open>process_video\<close>, the job record its callbacks write to, and the
  state of the outside world. Two fields are not in the source: \<open>enrich_calls\<close> lists the
  invocations of \<open>_process_tracked_object\<close> as (track id, frame number), and
  \<open>tracker_out\<close> lists the analyzed frames with what \<open>_assign_track_ids\<close> returned for them,
  both in the order of the run.
\<close>

record 'w pv_state =
  world :: 'w
  job :: job_status
  tracks_by_frame :: "int \<rightharpoonup> frame_detection list"
  object_products :: "int \<rightharpoonup> product_info"
  next_track_id :: int
  previous_detections :: "tracked list"
  processed_frames :: nat
  enrich_calls :: "(int \<times> nat) list"
  tracker_out :: "(nat \<times> tracked list) list"

definition frame_detection_of :: "tracked \<Rightarrow> frame_detection" where
  "frame_detection_of d =
     \<lparr>fd_track_id = track_id d, fd_bbox = det_bbox d, fd_class = det_label d,
      fd_confidence = det_confidence d\<rparr>"

text \<open>The loop \<open>for detection in detections\<close> of one analyzed frame; an exception ends it.\<close>

fun detections_loop ::
  "('f, 'w) collaborators \<Rightarrow> callbacks \<Rightarrow> string \<Rightarrow> rat \<Rightarrow> 'f \<Rightarrow> nat \<Rightarrow> tracked list
     \<Rightarrow> frame_detection list \<Rightarrow> 'w pv_state
     \<Rightarrow> py_exception option \<times> frame_detection list \<times> 'w pv_state"
where
  "detections_loop env cbs vid fps frame frame_num [] frame_detections st =
     (None, frame_detections, st)"
| "detections_loop env cbs vid fps frame frame_num (d # ds) frame_detections st =
     (let tid = track_id d;
          fds = frame_detections @ [frame_detection_of d]
      in if object_products st tid \<noteq> None then
           detections_loop env cbs vid fps frame frame_num ds fds st
         else
           case timestamp_ms frame_num fps of
             Inl e \<Rightarrow> (Some e, fds, st)
           | Inr ts \<Rightarrow>
               let st1 = st\<lparr>enrich_calls := enrich_calls st @ [(tid, frame_num)]\<rparr>
               in case process_tracked_object env frame d tid vid ts (world st1) of
                    (Inl e, w) \<Rightarrow> (Some e, fds, st1\<lparr>world := w\<rparr>)
                  | (Inr info, w) \<Rightarrow>
                      detections_loop env cbs vid fps frame frame_num ds fds
                        (st1\<lparr>world := w,
                             object_products := (object_products st1)(tid \<mapsto> info),
                             job := call_log cbs
                               (''Track '' @ show_int tid @ '': '' @ det_label d
                                  @ '' [OWL-ViT + SAM] -> '' @ info_category info)
                               (job st1)\<rparr>))"

text \<open>The body of \<open>if frame_num % sample_rate == 0\<close>.\<close>

definition analyze_frame ::
  "('f, 'w) collaborators \<Rightarrow> callbacks \<Rightarrow> string \<Rightarrow> rat \<Rightarrow> int \<Rightarrow> 'f \<Rightarrow> nat \<Rightarrow> 'w pv_state
     \<Rightarrow> py_exception option \<times> 'w pv_state"
where
  "analyze_frame env cbs vid fps total_frames frame frame_num st =
     (case detect_products env frame (world st) of
        (Inl e, w) \<Rightarrow> (Some e, st\<lparr>world := w\<rparr>)
      | (Inr dets, w) \<Rightarrow>
          let (detections, n) = assign_track_ids dets (previous_detections st) (next_track_id st);
              st1 = st\<lparr>world := w, next_track_id := n,
                       tracker_out := tracker_out st @ [(frame_num, detections)]\<rparr>
          in case detections_loop env cbs vid fps frame frame_num detections [] st1 of
               (Some e, fds, st2) \<Rightarrow> (Some e, st2)
             | (None, fds, st2) \<Rightarrow>
                 (case timestamp_ms frame_num fps of
                    Inl e \<Rightarrow> (Some e, st2)
                  | Inr ts \<Rightarrow>
                      let st3 = st2\<lparr>tracks_by_frame := (tracks_by_frame st2)(ts \<mapsto> fds),
                                     previous_detections := detections,
                                     processed_frames := processed_frames st2 + 1\<rparr>
                      in case progress_callback cbs of
                           None \<Rightarrow> (None, st3)
                         | Some f \<Rightarrow>
                             if total_frames = 0
                             then (Some (ZeroDivisionError ''division by zero''), st3)
                             else (None, st3\<lparr>job :=
                               f (of_nat frame_num / of_int total_frames * 100)
                                 (''Processing frame '' @ show_nat frame_num @ ''/''
                                    @ show_int total_frames @ '' - Found ''
                                    @ show_nat (length detections) @ '' objects'')
                                 (job st3)\<rparr>)))"

definition process_frame ::
  "('f, 'w) collaborators \<Rightarrow> callbacks \<Rightarrow> string \<Rightarrow> rat \<Rightarrow> int \<Rightarrow> 'f \<Rightarrow> nat \<Rightarrow> 'w pv_state
     \<Rightarrow> py_exception option \<times> 'w pv_state"
where
  "process_frame env cbs vid fps total_frames frame frame_num st =
     (if is_sampled fps frame_num
      then analyze_frame env cbs vid fps total_frames frame frame_num st
      else (None, st))"

text \<open>The \<open>while\<close> loop over the frames the capture delivers.\<close>

fun frames_loop ::
  "('f, 'w) collaborators \<Rightarrow> callbacks \<Rightarrow> string \<Rightarrow> rat \<Rightarrow> int \<Rightarrow> 'f list \<Rightarrow> nat \<Rightarrow> 'w pv_state
     \<Rightarrow> py_exception option \<times> 'w pv_state"
where
  "frames_loop env cbs vid fps total_frames [] frame_num st = (None, st)"
| "frames_loop env cbs vid fps total_frames (frame # rest) frame_num st =
     (case process_frame env cbs vid fps total_frames frame frame_num st of
        (Some e, st1) \<Rightarrow> (Some e, st1)
      | (None, st1) \<Rightarrow> frames_loop env cbs vid fps total_frames rest (frame_num + 1) st1)"

section \<open>Storage and the server state\<close>

definition STORAGE_PATH :: string where
  "STORAGE_PATH = ''./data''"

definition path_join :: "string \<Rightarrow> string \<Rightarrow> string" where
  \<comment> \<open>\<open>os.path.join\<close> of a directory without trailing slash and a relative name\<close>
  "path_join a b = a @ ''/'' @ b"

definition tracking_path :: "string \<Rightarrow> string" where
  "tracking_path vid = path_join (path_join STORAGE_PATH ''tracking'') (vid @ ''_tracking.json'')"

text \<open>
  The module-level dict \<open>processing_status\<close>, the background tasks handed to FastAPI and
  not yet run, the files under \<open>STORAGE_PATH\<close> that the endpoints look at, and the state
  of the outside world of the collaborators.
\<close>

record 'w server =
  processing_status :: "string \<rightharpoonup> job_status"
  background_tasks :: "(string \<times> string) list"
  video_files :: "string set"
  tracking_files :: "string \<rightharpoonup> artifact"
  srv_world :: 'w

definition initial_state :: "job_status \<Rightarrow> 'w \<Rightarrow> 'w pv_state" where
  "initial_state j w =
     \<lparr>world = w, job = j, tracks_by_frame = Map.empty, object_products = Map.empty,
      next_track_id = 1, previous_detections = [], processed_frames = 0, enrich_calls = [], tracker_out = []\<rparr>"

definition start_state :: "callbacks \<Rightarrow> string \<Rightarrow> job_status \<Rightarrow> 'w \<Rightarrow> 'w pv_state" where
  \<comment> \<open>the two opening log lines, then the initial values of the locals\<close>
  "start_state cbs vid j w =
     (let j1 = call_log cbs (''Starting video processing for '' @ vid) j;
          j2 = call_log cbs
                 ''Using OWL-ViT (zero-shot detection) + SAM (segmentation) + IoU tracking'' j1
      in initial_state j2 w)"

definition delivered_frames :: "'f capture \<Rightarrow> 'f list" where
  \<comment> \<open>\<open>while cap.isOpened(): ret, frame = cap.read(); if not ret: break\<close>\<close>
  "delivered_frames cap = (if cap_opened cap then cap_frames cap else [])"

text \<open>\<open>process_video\<close> up to \<open>cap.release()\<close>: open the video, run the frame loop.\<close>

definition run_frames ::
  "('f, 'w) collaborators \<Rightarrow> callbacks \<Rightarrow> string \<Rightarrow> string \<Rightarrow> job_status \<Rightarrow> 'w
     \<Rightarrow> py_exception option \<times> 'w pv_state"
where
  "run_frames env cbs vid video_path j w =
     (let cap = video_capture env video_path;
          fps = cap_fps cap;
          total_frames = py_int (cap_frame_count cap)
      in frames_loop env cbs vid fps total_frames (delivered_frames cap) 0
           (start_state cbs vid j w))"

text \<open>\<open>process_video\<close>: after the loop, the artifact is built and written to its file.\<close>

definition process_video ::
  "('f, 'w) collaborators \<Rightarrow> callbacks \<Rightarrow> string \<Rightarrow> string \<Rightarrow> job_status \<Rightarrow> 'w
     \<Rightarrow> (string \<rightharpoonup> artifact)
     \<Rightarrow> (py_exception + artifact) \<times> 'w pv_state \<times> (string \<rightharpoonup> artifact)"
where
  "process_video env cbs vid video_path j w files =
     (case run_frames env cbs vid video_path j w of
        (Some e, st) \<Rightarrow> (Inl e, st, files)
      | (None, st) \<Rightarrow>
          let cap = video_capture env video_path;
              output_data =
                \<lparr>art_video_id = vid, art_fps = cap_fps cap,
                 art_total_frames = py_int (cap_frame_count cap),
                 art_tracks_by_frame = tracks_by_frame st,
                 art_object_products = object_products st\<rparr>
          in (Inr output_data, st, files(tracking_path vid \<mapsto> output_data)))"

section \<open>The endpoints and the background task (\<open>api/process.py\<close>)\<close>

definition task_callbacks :: callbacks where
  \<comment> \<open>the closures \<open>update_progress\<close> and \<open>log_message\<close> of \<open>process_video_task\<close>\<close>
  "task_callbacks =
     \<lparr>progress_callback = Some (\<lambda>p m. update_progress p (Some m)),
      log_callback = Some log_message\<rparr>"

definition process_video_task ::
  "('f, 'w) collaborators \<Rightarrow> string \<Rightarrow> string \<Rightarrow> 'w server \<Rightarrow> py_exception option \<times> 'w server"
where
  "process_video_task env vid video_path srv =
     (case processing_status srv vid of
        None \<Rightarrow> (Some (KeyError vid), srv)
      | Some j0 \<Rightarrow>
          let j1 = (if logs j0 = None then j0\<lparr>logs := Some []\<rparr> else j0)
          in case process_video env task_callbacks vid video_path j1 (srv_world srv)
                    (tracking_files srv) of
               (Inr output_data, st, files) \<Rightarrow>
                 (None, srv\<lparr>processing_status := (processing_status srv)(vid \<mapsto>
                                 (job st)\<lparr>status := ''completed'', progress := 100,
                                   message := ''Video processing completed successfully''\<rparr>),
                              tracking_files := files, srv_world := world st\<rparr>)
             | (Inl e, st, files) \<Rightarrow>
                 (None, srv\<lparr>processing_status := (processing_status srv)(vid \<mapsto>
                                 \<lparr>status = ''failed'', progress = 0,
                                  message = ''Processing failed: '' @ exn_str e,
                                  logs = Some (logs_of (job st))\<rparr>),
                              tracking_files := files, srv_world := world st\<rparr>))"

definition video_extensions :: "string list" where
  "video_extensions = [''.mp4'', ''.mov'', ''.avi'', ''.webm'', ''.mkv'']"

definition find_video_path :: "string set \<Rightarrow> string \<Rightarrow> string option" where
  "find_video_path files vid =
     find (\<lambda>p. p \<in> files)
       (map (\<lambda>ext. path_join (path_join STORAGE_PATH ''videos'') (vid @ ext)) video_extensions)"

datatype start_response =
    AlreadyProcessing string job_status
  | Started string string

definition starting_record :: job_status where
  "starting_record =
     \<lparr>status = ''processing'', progress = 0, message = ''Starting video processing...'',
      logs = Some []\<rparr>"

definition start_processing ::
  "string \<Rightarrow> 'w server \<Rightarrow> http_error + start_response \<times> 'w server"
where
  "start_processing vid srv =
     (case find_video_path (video_files srv) vid of
        None \<Rightarrow> Inl (HTTPException 404 ''Video not found'')
      | Some video_path \<Rightarrow>
          (case processing_status srv vid of
             Some st \<Rightarrow>
               if status st = ''processing''
               then Inr (AlreadyProcessing ''Video is already being processed'' st, srv)
               else Inr (Started ''Video processing started'' vid,
                         srv\<lparr>processing_status := (processing_status srv)(vid \<mapsto> starting_record),
                             background_tasks := background_tasks srv @ [(vid, video_path)]\<rparr>)
           | None \<Rightarrow>
               Inr (Started ''Video processing started'' vid,
                    srv\<lparr>processing_status := (processing_status srv)(vid \<mapsto> starting_record),
                        background_tasks := background_tasks srv @ [(vid, video_path)]\<rparr>)))"

record status_response =
  resp_video_id :: string
  resp_status :: string
  resp_progress :: rat
  resp_message :: string
  resp_logs :: "string list"

definition get_processing_status :: "string \<Rightarrow> 'w server \<Rightarrow> http_error + status_response" where
  "get_processing_status vid srv =
     (case processing_status srv vid of
        None \<Rightarrow>
          if tracking_files srv (tracking_path vid) \<noteq> None
          then Inr \<lparr>resp_video_id = vid, resp_status = ''completed'', resp_progress = 100,
                    resp_message = ''Video processing completed'', resp_logs = []\<rparr>
          else Inl (HTTPException 404 ''Video not found or not processed'')
      | Some st \<Rightarrow>
          Inr \<lparr>resp_video_id = vid, resp_status = status st, resp_progress = progress st,
               resp_message = message st, resp_logs = logs_of st\<rparr>)"

subsection \<open>The sampling rule in the specification's words\<close>



section \<open>Example values\<close>

definition empty_artifact :: "string \<Rightarrow> artifact" where
  "empty_artifact vid =
     \<lparr>art_video_id = vid, art_fps = 0, art_total_frames = 0,
      art_tracks_by_frame = Map.empty, art_object_products = Map.empty\<rparr>"

definition example_server :: "unit server" where
  "example_server =
     \<lparr>processing_status = Map.empty, background_tasks = [],
      video_files = {''./data/videos/v1.mov''},
      tracking_files = [tracking_path ''v0'' \<mapsto> empty_artifact ''v0''],
      srv_world = ()\<rparr>"

text \<open>
  A capture of 20 frames at 10 fps (a frame is its index), a detector that sees one cup
  moving one pixel per frame, a segmenter that succeeds and a product search that finds
  nothing.
\<close>

definition moving_detection :: "nat \<Rightarrow> detection" where
  "moving_detection f =
     \<lparr>det_bbox = box (of_nat f) 0 40 40, det_label = ''cup'', det_confidence = 9 / 10\<rparr>"

definition example_capture :: "nat capture" where
  "example_capture =
     \<lparr>cap_opened = True, cap_fps = 10, cap_frame_count = 20, cap_frames = [0..<20]\<rparr>"

definition unopened_capture :: "nat capture" where
  "unopened_capture = \<lparr>cap_opened = False, cap_fps = 0, cap_frame_count = 0, cap_frames = []\<rparr>"

definition example_env :: "(nat, unit) collaborators" where
  "example_env =
     \<lparr>video_capture = (\<lambda>p. example_capture),
      detect_products = (\<lambda>f w. (Inr [moving_detection f], w)),
      segment_with_box = (\<lambda>f b v t w. (Inr ''/static/crops/mask.png'', w)),
      search_products = (\<lambda>l k w. (Inr [], w))\<rparr>"

definition registered_server :: "unit server" where
  \<comment> \<open>\<open>example_server\<close> after \<open>start_processing\<close> for video \<open>v1\<close>\<close>
  "registered_server =
     example_server\<lparr>processing_status := [''v1'' \<mapsto> starting_record],
       background_tasks := [(''v1'', ''./data/videos/v1.mov'')]\<rparr>"

definition zero_fps_env :: "(nat, unit) collaborators" where
  \<comment> \<open>the example with a capture that is opened and reports 0 fps\<close>
  "zero_fps_env = example_env\<lparr>video_capture := (\<lambda>p. example_capture\<lparr>cap_fps := 0\<rparr>)\<rparr>"

definition unopened_env :: "(nat, unit) collaborators" where
  \<comment> \<open>the example with a video that cannot be opened\<close>
  "unopened_env = example_env\<lparr>video_capture := (\<lambda>p. unopened_capture)\<rparr>"

definition failing_detector_env :: "(nat, unit) collaborators" where
  "failing_detector_env =
     example_env\<lparr>detect_products := (\<lambda>f w. (Inl (CollaboratorError ''detector down''), w))\<rparr>"

definition failing_segmenter_env :: "(nat, unit) collaborators" where
  "failing_segmenter_env =
     example_env\<lparr>segment_with_box := (\<lambda>f b v t w. (Inl (CollaboratorError ''SAM failed''), w))\<rparr>"

definition failing_search_env :: "(nat, unit) collaborators" where
  "failing_search_env =
     example_env\<lparr>search_products := (\<lambda>l k w. (Inl (CollaboratorError ''search down''), w))\<rparr>"

definition flaky_search_env :: "(nat, nat) collaborators" where
  \<comment> \<open>the world counts the product searches; only the first one fails\<close>
  "flaky_search_env =
     \<lparr>video_capture = (\<lambda>p. example_capture),
      detect_products = (\<lambda>f w. (Inr [moving_detection f], w)),
      segment_with_box = (\<lambda>f b v t w. (Inr ''/static/crops/mask.png'', w)),
      search_products = (\<lambda>l k w. (if w = 0 then Inl (CollaboratorError ''search down'') else Inr [],
                                   w + 1))\<rparr>"

section \<open>Reading the run\<close>






section \<open>IoU lemmas\<close>








section \<open>Tracker lemmas\<close>

lemma Max_Cons_set:
  fixes f :: "'a \<Rightarrow> rat"
  shows "xs \<noteq> [] \<Longrightarrow> Max (set (map f (x # xs))) = max (f x) (Max (set (map f xs)))"
  by (simp add: Max_insert)

lemma bml_char:
  "best_match_loop c M prev (b, bm) =
     (let cs = candidates c M prev;
          ious = map (\<lambda>p. calculate_iou (det_bbox c) (det_bbox p)) cs
      in if cs \<noteq> [] \<and> b < Max (set ious)
         then (Max (set ious), find (\<lambda>p. calculate_iou (det_bbox c) (det_bbox p) = Max (set ious)) cs)
         else (b, bm))"
proof (induction prev arbitrary: b bm)
  case Nil
  then show ?case by (simp add: candidates_def)
next
  case (Cons p ps)
  let ?f = "\<lambda>p. calculate_iou (det_bbox c) (det_bbox p)"
  show ?case
  proof (cases "track_id p \<notin> M \<and> det_label p = det_label c")
    case False
    then have "candidates c M (p # ps) = candidates c M ps" by (auto simp: candidates_def)
    moreover from False have "best_match_loop c M (p # ps) (b, bm) = best_match_loop c M ps (b, bm)"
      by auto
    ultimately show ?thesis using Cons.IH [of b bm] by simp
  next
    case True
    then have cs: "candidates c M (p # ps) = p # candidates c M ps" by (auto simp: candidates_def)
    let ?cs = "candidates c M ps"
    show ?thesis
    proof (cases "?cs = []")
      case True
      with \<open>track_id p \<notin> M \<and> det_label p = det_label c\<close> cs Cons.IH show ?thesis
        by (auto simp: Let_def)
    next
      case False
      note ne = this
      have mx: "Max (set (map ?f (p # ?cs))) = max (?f p) (Max (set (map ?f ?cs)))"
        using Max_Cons_set [OF ne] .
      have "Max (set (map ?f ?cs)) \<in> set (map ?f ?cs)"
        using ne by (intro Max_in) auto
      then have ex: "\<exists>q \<in> set ?cs. ?f q = Max (set (map ?f ?cs))"
        by auto
      show ?thesis
      proof (cases "b < ?f p")
        case bp: True
        then have step: "best_match_loop c M (p # ps) (b, bm) = best_match_loop c M ps (?f p, Some p)"
          using True by (simp add: Let_def)
        show ?thesis
          unfolding step Cons.IH cs using ne mx bp ex
          by (auto simp: Let_def max_def simp del: set_map)
      next
        case bp: False
        then have step: "best_match_loop c M (p # ps) (b, bm) = best_match_loop c M ps (b, bm)"
          using True by (simp add: Let_def)
        show ?thesis
          unfolding step Cons.IH cs using ne mx bp ex
          by (auto simp: Let_def max_def simp del: set_map)
      qed
    qed
  qed
qed


lemma best_match_is_spec_select:
  "snd (best_match_loop c M prev (3 / 10, None)) = spec_select c M prev"
  by (simp add: bml_char spec_select_def Let_def)

lemma match_loop_is_spec_update:
  "match_loop cur prev M n = spec_update cur prev M n"
  by (induction cur arbitrary: M n) (simp_all add: best_match_is_spec_select split: option.splits)

lemma spec_select_SomeD:
  assumes "spec_select c M prev = Some p"
  shows "p \<in> set prev" and "track_id p \<notin> M" and "det_label p = det_label c"
    and "3 / 10 < calculate_iou (det_bbox c) (det_bbox p)"
proof -
  let ?f = "\<lambda>p. calculate_iou (det_bbox c) (det_bbox p)"
  let ?cs = "candidates c M prev"
  from assms have ne: "?cs \<noteq> []" and gt: "3 / 10 < Max (set (map ?f ?cs))"
    and fd: "find (\<lambda>p. ?f p = Max (set (map ?f ?cs))) ?cs = Some p"
    by (auto simp: spec_select_def Let_def split: if_splits)
  from fd have "p \<in> set ?cs" and "?f p = Max (set (map ?f ?cs))"
    by (auto simp: find_Some_iff in_set_conv_nth simp del: set_map)
  with gt show "p \<in> set prev" and "track_id p \<notin> M" and "det_label p = det_label c"
    and "3 / 10 < ?f p"
    by (auto simp: candidates_def)
qed

lemma track_id_with_track_id [simp]: "track_id (with_track_id d n) = n"
  by (simp add: with_track_id_def)

lemma spec_update_ids:
  assumes "spec_update cur prev M n = (out, n')"
  shows "n \<le> n' \<and>
         (\<forall>i \<in> set (map track_id out).
            (i \<in> track_id ` set prev \<and> i \<notin> M) \<or> (n \<le> i \<and> i < n'))"
  using assms
proof (induction cur arbitrary: M n out n')
  case Nil
  then show ?case by simp
next
  case (Cons c cs)
  show ?case
  proof (cases "spec_select c M prev")
    case None
    with Cons.prems obtain out1 where r: "spec_update cs prev M (n + 1) = (out1, n')"
      and o: "out = with_track_id c n # out1"
      by (auto split: prod.splits)
    from Cons.IH [OF r] o show ?thesis by auto
  next
    case (Some p)
    with Cons.prems obtain out1
      where r: "spec_update cs prev (insert (track_id p) M) n = (out1, n')"
      and o: "out = with_track_id c (track_id p) # out1"
      by (auto split: prod.splits)
    from spec_select_SomeD [OF Some] have "p \<in> set prev" "track_id p \<notin> M" by auto
    with Cons.IH [OF r] o show ?thesis by auto
  qed
qed

lemma spec_update_distinct:
  assumes "spec_update cur prev M n = (out, n')" and "\<forall>p \<in> set prev. track_id p < n"
  shows "distinct (map track_id out)"
  using assms
proof (induction cur arbitrary: M n out n')
  case Nil
  then show ?case by simp
next
  case (Cons c cs)
  show ?case
  proof (cases "spec_select c M prev")
    case None
    with Cons.prems obtain out1 where r: "spec_update cs prev M (n + 1) = (out1, n')"
      and o: "out = with_track_id c n # out1"
      by (auto split: prod.splits)
    from Cons.prems(2) have lt: "\<forall>p \<in> set prev. track_id p < n + 1" by auto
    from spec_update_ids [OF r] Cons.prems(2) have "n \<notin> set (map track_id out1)" by fastforce
    with Cons.IH [OF r lt] o show ?thesis by simp
  next
    case (Some p)
    with Cons.prems obtain out1
      where r: "spec_update cs prev (insert (track_id p) M) n = (out1, n')"
      and o: "out = with_track_id c (track_id p) # out1"
      by (auto split: prod.splits)
    from spec_select_SomeD [OF Some] Cons.prems(2) have "track_id p < n" by auto
    with spec_update_ids [OF r] have "track_id p \<notin> set (map track_id out1)" by fastforce
    with Cons.IH [OF r Cons.prems(2)] o show ?thesis by simp
  qed
qed

section \<open>Job registry lemmas\<close>

lemma log_message_logs:
  "logs_of (log_message m st) = drop (length (logs_of st @ [m]) - 50) (logs_of st @ [m])"
  by (simp add: log_message_def logs_of_def Let_def)

lemma start_processing_twice:
  assumes "start_processing vid srv = Inr (r, srv1)"
  shows "\<exists>st. processing_status srv1 vid = Some st \<and> status st = ''processing'' \<and>
              video_files srv1 = video_files srv"
  using assms
  by (auto simp: start_processing_def starting_record_def split: option.splits if_splits)

section \<open>Frame loop lemmas\<close>






section \<open>Run and task lemmas\<close>

lemma detections_loop_zero_fps:
  "detections_loop env cbs vid 0 frame i ds fds st = (r, fds', st') \<Longrightarrow>
     r = None \<or> r = Some (ZeroDivisionError ''float division by zero'')"
proof (induction ds arbitrary: fds st)
  case Nil
  then show ?case by simp
next
  case (Cons d ds)
  then show ?case
    by (auto simp: Let_def timestamp_ms_def split: if_splits)
qed

lemma analyze_frame_zero_fps:
  "\<exists>e. fst (analyze_frame env cbs vid 0 tot frame i st) = Some e \<and>
       (\<forall>dets w. detect_products env frame (world st) = (Inr dets, w) \<longrightarrow>
          e = ZeroDivisionError ''float division by zero'')"
proof -
  obtain r w where d: "detect_products env frame (world st) = (r, w)"
    by (cases "detect_products env frame (world st)")
  show ?thesis
  proof (cases r)
    case (Inl e)
    with d show ?thesis by (simp add: analyze_frame_def)
  next
    case (Inr dets)
    obtain detections n where t: "assign_track_ids dets (previous_detections st) (next_track_id st) = (detections, n)"
      by (cases "assign_track_ids dets (previous_detections st) (next_track_id st)")
    let ?st1 = "st\<lparr>world := w, next_track_id := n, tracker_out := tracker_out st @ [(i, detections)]\<rparr>"
    obtain r2 fds st2 where l: "detections_loop env cbs vid 0 frame i detections [] ?st1 = (r2, fds, st2)"
      by (cases "detections_loop env cbs vid 0 frame i detections [] ?st1")
    from detections_loop_zero_fps [OF l] d Inr t l show ?thesis
      by (auto simp: analyze_frame_def Let_def timestamp_ms_def)
  qed
qed

lemma is_sampled_0 [simp]: "is_sampled fps 0"
  by (simp add: is_sampled_def)

lemma frames_loop_zero_fps:
  "\<exists>e. fst (frames_loop env cbs vid 0 tot (f # fs) 0 st) = Some e \<and>
       (\<forall>dets w. detect_products env f (world st) = (Inr dets, w) \<longrightarrow>
          e = ZeroDivisionError ''float division by zero'')"
proof -
  from analyze_frame_zero_fps [of env cbs vid tot f 0 st] obtain e
    where e: "fst (analyze_frame env cbs vid 0 tot f 0 st) = Some e"
      and z: "\<forall>dets w. detect_products env f (world st) = (Inr dets, w) \<longrightarrow>
          e = ZeroDivisionError ''float division by zero''" by blast
  from e have "fst (frames_loop env cbs vid 0 tot (f # fs) 0 st) = Some e"
    by (cases "analyze_frame env cbs vid 0 tot f 0 st") (simp add: process_frame_def)
  with z show ?thesis by blast
qed

lemma world_start_state [simp]: "world (start_state cbs vid j w) = w"
  by (simp add: start_state_def initial_state_def Let_def)

lemma process_video_raises:
  "fst (run_frames env cbs vid path j w) = Some e \<Longrightarrow>
     \<exists>st. process_video env cbs vid path j w files = (Inl e, st, files)"
  by (cases "run_frames env cbs vid path j w") (simp add: process_video_def)

lemma process_video_Inl:
  "process_video env cbs vid path j w files = (Inl e, st, files') \<Longrightarrow>
     files' = files \<and> run_frames env cbs vid path j w = (Some e, st)"
  by (auto simp: process_video_def Let_def split: prod.splits option.splits)

lemma task_failed:
  assumes "processing_status srv vid = Some j0"
    and "process_video env task_callbacks vid path
           (if logs j0 = None then j0\<lparr>logs := Some []\<rparr> else j0)
           (srv_world srv) (tracking_files srv) = (Inl e, st, files)"
  shows "process_video_task env vid path srv =
     (None, srv\<lparr>processing_status := (processing_status srv)(vid \<mapsto>
                    \<lparr>status = ''failed'', progress = 0,
                     message = ''Processing failed: '' @ exn_str e,
                     logs = Some (logs_of (job st))\<rparr>),
                 tracking_files := tracking_files srv, srv_world := world st\<rparr>)"
  using assms process_video_Inl [OF assms(2)]
  by (simp add: process_video_task_def Let_def)

lemma task_completed:
  assumes "processing_status srv vid = Some j0"
    and "process_video env task_callbacks vid path
           (if logs j0 = None then j0\<lparr>logs := Some []\<rparr> else j0)
           (srv_world srv) (tracking_files srv) = (Inr a, st, files)"
  shows "process_video_task env vid path srv =
     (None, srv\<lparr>processing_status := (processing_status srv)(vid \<mapsto>
                    (job st)\<lparr>status := ''completed'', progress := 100,
                      message := ''Video processing completed successfully''\<rparr>),
                 tracking_files := files, srv_world := world st\<rparr>)"
  using assms
  by (simp add: process_video_task_def Let_def)

lemma process_video_unopened:
  assumes "\<not> cap_opened (video_capture env path)"
  shows "process_video env cbs vid path j w files =
     (Inr \<lparr>art_video_id = vid, art_fps = cap_fps (video_capture env path),
           art_total_frames = py_int (cap_frame_count (video_capture env path)),
           art_tracks_by_frame = Map.empty, art_object_products = Map.empty\<rparr>,
      start_state cbs vid j w,
      files(tracking_path vid \<mapsto>
        \<lparr>art_video_id = vid, art_fps = cap_fps (video_capture env path),
         art_total_frames = py_int (cap_frame_count (video_capture env path)),
         art_tracks_by_frame = Map.empty, art_object_products = Map.empty\<rparr>))"
  using assms
  by (simp add: process_video_def run_frames_def delivered_frames_def Let_def
        start_state_def initial_state_def)

section \<open>The example runs\<close>

lemma unopened_env_capture:
  "\<not> cap_opened (video_capture unopened_env p) \<and> cap_fps (video_capture unopened_env p) = 0 \<and>
   py_int (cap_frame_count (video_capture unopened_env p)) = 0"
  by (simp add: unopened_env_def unopened_capture_def py_int_def)

lemma registered_v1: "processing_status registered_server ''v1'' = Some starting_record"
  by (simp add: registered_server_def)

lemma zero_fps_env_capture:
  "cap_opened (video_capture zero_fps_env p) \<and> cap_fps (video_capture zero_fps_env p) = 0 \<and>
   cap_frames (video_capture zero_fps_env p) = 0 # [1..<20]"
proof -
  have "[0..<20] = 0 # [1..<20]" by code_simp
  then show ?thesis
    by (simp add: zero_fps_env_def example_env_def example_capture_def)
qed

lemma zero_fps_env_raises:
  "\<exists>e st. process_video zero_fps_env cbs vid p j w files = (Inl e, st, files)"
proof -
  from frames_loop_zero_fps [of zero_fps_env cbs vid
      "py_int (cap_frame_count (video_capture zero_fps_env p))" 0 "[1..<20]" "start_state cbs vid j w"]
  obtain e where "fst (frames_loop zero_fps_env cbs vid 0
        (py_int (cap_frame_count (video_capture zero_fps_env p))) (0 # [1..<20]) 0
        (start_state cbs vid j w)) = Some e" by blast
  then have "fst (run_frames zero_fps_env cbs vid p j w) = Some e"
    using zero_fps_env_capture [of p]
    by (simp add: run_frames_def delivered_frames_def Let_def)
  from process_video_raises [OF this] show ?thesis by blast
qed

section \<open>Failure propagation lemmas\<close>

lemma run_frames_first:
  assumes "cap_opened (video_capture env path)"
    and "cap_frames (video_capture env path) = f # fs"
    and "fst (analyze_frame env cbs vid (cap_fps (video_capture env path))
               (py_int (cap_frame_count (video_capture env path))) f 0
               (start_state cbs vid j w)) = Some e"
  shows "fst (run_frames env cbs vid path j w) = Some e"
  using assms
  by (cases "analyze_frame env cbs vid (cap_fps (video_capture env path))
               (py_int (cap_frame_count (video_capture env path))) f 0
               (start_state cbs vid j w)")
     (simp add: run_frames_def delivered_frames_def Let_def process_frame_def)

lemma task_fails_when_run_raises:
  assumes "processing_status srv vid = Some j0"
    and "fst (run_frames env task_callbacks vid path
                (if logs j0 = None then j0\<lparr>logs := Some []\<rparr> else j0) (srv_world srv)) = Some e"
  shows "\<exists>j. processing_status (snd (process_video_task env vid path srv)) vid = Some j \<and>
             status j = ''failed'' \<and> message j = ''Processing failed: '' @ exn_str e"
proof -
  from process_video_raises [OF assms(2), of "tracking_files srv"] obtain st
    where "process_video env task_callbacks vid path
             (if logs j0 = None then j0\<lparr>logs := Some []\<rparr> else j0)
             (srv_world srv) (tracking_files srv) = (Inl e, st, tracking_files srv)" by blast
  from task_failed [OF assms(1) this] show ?thesis by simp
qed

lemma analyze_frame_detector_fails:
  "detect_products env f (world st) = (Inl e, w) \<Longrightarrow>
     analyze_frame env cbs vid fps tot f i st = (Some e, st\<lparr>world := w\<rparr>)"
  by (simp add: analyze_frame_def)

lemma det_fields_with_track_id [simp]:
  "det_bbox (with_track_id d n) = det_bbox d"
  "det_label (with_track_id d n) = det_label d"
  by (simp_all add: with_track_id_def)

lemma example_frames: "cap_frames example_capture = 0 # [1..<20]"
proof -
  have "[0..<20] = 0 # [1..<20]" by code_simp
  then show ?thesis by (simp add: example_capture_def)
qed

section \<open>Enrichment lemmas\<close>




















lemma frames_loop_append:
  "frames_loop env cbs vid fps tot (xs @ ys) n st =
     (case frames_loop env cbs vid fps tot xs n st of
        (Some e, st1) \<Rightarrow> (Some e, st1)
      | (None, st1) \<Rightarrow> frames_loop env cbs vid fps tot ys (n + length xs) st1)"
proof (induction xs arbitrary: n st)
  case Nil
  then show ?case by simp
next
  case (Cons x xs)
  obtain r st1 where p: "process_frame env cbs vid fps tot x n st = (r, st1)"
    by (cases "process_frame env cbs vid fps tot x n st")
  show ?case
  proof (cases r)
    case None
    with p Cons.IH [of "n + 1" st1] show ?thesis
      by (simp split: prod.splits option.splits)
  next
    case (Some e)
    with p show ?thesis by simp
  qed
qed

lemma detections_loop_append:
  "detections_loop env cbs vid fps frame i (xs @ ys) fds st =
     (case detections_loop env cbs vid fps frame i xs fds st of
        (Some e, fds1, st1) \<Rightarrow> (Some e, fds1, st1)
      | (None, fds1, st1) \<Rightarrow> detections_loop env cbs vid fps frame i ys fds1 st1)"
proof (induction xs arbitrary: fds st)
  case Nil
  then show ?case by simp
next
  case (Cons d ds)
  show ?case
  proof (cases "object_products st (track_id d)")
    case (Some info)
    with Cons.IH [of "fds @ [frame_detection_of d]" st] show ?thesis
      by (simp add: Let_def)
  next
    case None
    show ?thesis
    proof (cases "timestamp_ms i fps")
      case (Inl e)
      with None show ?thesis by (simp add: Let_def)
    next
      case (Inr ts)
      let ?st1 = "st\<lparr>enrich_calls := enrich_calls st @ [(track_id d, i)]\<rparr>"
      obtain x w where p: "process_tracked_object env frame d (track_id d) vid ts (world st) = (x, w)"
        by (cases "process_tracked_object env frame d (track_id d) vid ts (world st)")
      show ?thesis
      proof (cases x)
        case (Inl e)
        with None \<open>timestamp_ms i fps = Inr ts\<close> p show ?thesis by (simp add: Let_def)
      next
        case (Inr info)
        with None \<open>timestamp_ms i fps = Inr ts\<close> p
          Cons.IH [of "fds @ [frame_detection_of d]"
            "?st1\<lparr>world := w,
                   object_products := (object_products ?st1)(track_id d \<mapsto> info),
                   job := call_log cbs
                           (''Track '' @ show_int (track_id d) @ '': '' @ det_label d
                              @ '' [OWL-ViT + SAM] -> '' @ info_category info)
                           (job ?st1)\<rparr>"]
        show ?thesis by (simp add: Let_def)
      qed
    qed
  qed
qed

lemma detections_loop_enrichment_raises:
  assumes "object_products st (track_id d) = None"
    and "timestamp_ms i fps = Inr ts"
    and "process_tracked_object env frame d (track_id d) vid ts (world st) = (Inl e, w)"
  shows "fst (detections_loop env cbs vid fps frame i (d # ds) fds st) = Some e"
  using assms by (simp add: Let_def)

lemma run_frames_reaches:
  assumes "cap_opened (video_capture env path)"
    and "cap_frames (video_capture env path) = pre @ f # post"
    and "frames_loop env cbs vid (cap_fps (video_capture env path))
           (py_int (cap_frame_count (video_capture env path))) pre 0
           (start_state cbs vid j w) = (None, st)"
    and "is_sampled (cap_fps (video_capture env path)) (length pre)"
    and "fst (analyze_frame env cbs vid (cap_fps (video_capture env path))
               (py_int (cap_frame_count (video_capture env path))) f (length pre) st) = Some e"
  shows "fst (run_frames env cbs vid path j w) = Some e"
  using assms
  by (cases "analyze_frame env cbs vid (cap_fps (video_capture env path))
               (py_int (cap_frame_count (video_capture env path))) f (length pre) st")
     (simp add: run_frames_def delivered_frames_def Let_def frames_loop_append process_frame_def)

lemma analyze_frame_enrichment_raises:
  assumes "detect_products env f (world st) = (Inr dets, w1)"
    and "assign_track_ids dets (previous_detections st) (next_track_id st) = (dpre @ d # dpost, n)"
    and "detections_loop env cbs vid fps f i dpre []
           (st\<lparr>world := w1, next_track_id := n,
               tracker_out := tracker_out st @ [(i, dpre @ d # dpost)]\<rparr>) = (None, fds, st2)"
    and "object_products st2 (track_id d) = None"
    and "timestamp_ms i fps = Inr ts"
    and "process_tracked_object env f d (track_id d) vid ts (world st2) = (Inl e, w)"
  shows "fst (analyze_frame env cbs vid fps tot f i st) = Some e"
proof -
  let ?st1 = "st\<lparr>world := w1, next_track_id := n,
               tracker_out := tracker_out st @ [(i, dpre @ d # dpost)]\<rparr>"
  from detections_loop_enrichment_raises [OF assms(4,5,6), of cbs dpost fds]
  obtain fds3 st3 where
    "detections_loop env cbs vid fps f i (d # dpost) fds st2 = (Some e, fds3, st3)"
    by (cases "detections_loop env cbs vid fps f i (d # dpost) fds st2") auto
  with assms(3)
  have "detections_loop env cbs vid fps f i (dpre @ d # dpost) [] ?st1 = (Some e, fds3, st3)"
    by (simp add: detections_loop_append)
  with assms(1,2) show ?thesis
    by (simp add: analyze_frame_def Let_def)
qed

section \<open>Claims\<close>

text \<open>
  C1. Tracker matching rule: in a call with a non-empty previous-track list, each current
  detection, in input order, is compared with the previous tracks not yet consumed in this
  call that share its label; the first candidate of maximum IoU is selected; its
  \<open>track_id\<close> is reused exactly when that maximum is above 0.3, and the candidate is then
  consumed; otherwise the detection gets the fresh id and the counter advances by one
  (this is \<open>spec_update\<close>). No previous track is given to two detections of one call:
  when the fresh ids lie above the previous ones, the ids of the result are distinct.
\<close>

theorem tracker_matching_rule:
  "previous \<noteq> [] \<Longrightarrow>
     assign_track_ids current previous n = spec_update current previous {} n \<and>
     ((\<forall>p \<in> set previous. track_id p < n) \<longrightarrow>
        distinct (map track_id (fst (assign_track_ids current previous n))))"
  using spec_update_distinct [of current previous "{}" n]
  by (cases "spec_update current previous {} n")
     (simp add: assign_track_ids_def match_loop_is_spec_update)

theorem tracker_matching_rule_witness:
  "[\<lparr>det_bbox = box 0 0 4 4, det_label = ''cup'', det_confidence = 1, track_id = 5\<rparr>] \<noteq> [] \<and>
   track_id \<lparr>det_bbox = box 0 0 4 4, det_label = ''cup'', det_confidence = 1, track_id = 5\<rparr> < 6 \<and>
   map track_id (fst (assign_track_ids
     [\<lparr>det_bbox = box 0 0 4 4, det_label = ''bottle'', det_confidence = 1\<rparr>,
      \<lparr>det_bbox = box 0 2 4 4, det_label = ''cup'', det_confidence = 1\<rparr>,
      \<lparr>det_bbox = box 0 0 4 4, det_label = ''cup'', det_confidence = 1\<rparr>]
     [\<lparr>det_bbox = box 0 0 4 4, det_label = ''cup'', det_confidence = 1, track_id = 5\<rparr>] 6))
     = [6, 5, 7] \<and>
   distinct (map track_id (fst (assign_track_ids
     [\<lparr>det_bbox = box 0 0 4 4, det_label = ''bottle'', det_confidence = 1\<rparr>,
      \<lparr>det_bbox = box 0 2 4 4, det_label = ''cup'', det_confidence = 1\<rparr>,
      \<lparr>det_bbox = box 0 0 4 4, det_label = ''cup'', det_confidence = 1\<rparr>]
     [\<lparr>det_bbox = box 0 0 4 4, det_label = ''cup'', det_confidence = 1, track_id = 5\<rparr>] 6)))"
  using tracker_matching_rule
    [of "[\<lparr>det_bbox = box 0 0 4 4, det_label = ''cup'', det_confidence = 1, track_id = 5\<rparr>]"
        "[\<lparr>det_bbox = box 0 0 4 4, det_label = ''bottle'', det_confidence = 1\<rparr>,
          \<lparr>det_bbox = box 0 2 4 4, det_label = ''cup'', det_confidence = 1\<rparr>,
          \<lparr>det_bbox = box 0 0 4 4, det_label = ''cup'', det_confidence = 1\<rparr>]" 6]
  by (simp add: spec_select_def candidates_def calculate_iou_def box_def Let_def)



text \<open>
  C3, as amended. A video that fails to open does not fail the job: the capture is not
  opened, the frame loop runs no iteration, an artifact without frames and tracks is
  written and the job ends \<open>completed\<close> with progress 100. A job becomes \<open>failed\<close> when
  \<open>process_video\<close> raises: its message is "Processing failed: " followed by the error
  text, the log so far is kept, and that run writes no tracking artifact.
\<close>

theorem video_open_failure:
  assumes "processing_status srv vid = Some j0"
  shows
   "(\<not> cap_opened (video_capture env path) \<longrightarrow>
       (\<exists>j. processing_status (snd (process_video_task env vid path srv)) vid = Some j \<and>
            status j = ''completed'' \<and> progress j = 100) \<and>
       tracking_files (snd (process_video_task env vid path srv)) (tracking_path vid) =
         Some \<lparr>art_video_id = vid, art_fps = cap_fps (video_capture env path),
               art_total_frames = py_int (cap_frame_count (video_capture env path)),
               art_tracks_by_frame = Map.empty, art_object_products = Map.empty\<rparr>) \<and>
    (\<forall>e st files.
       process_video env task_callbacks vid path
         (if logs j0 = None then j0\<lparr>logs := Some []\<rparr> else j0)
         (srv_world srv) (tracking_files srv) = (Inl e, st, files) \<longrightarrow>
       processing_status (snd (process_video_task env vid path srv)) vid =
         Some \<lparr>status = ''failed'', progress = 0,
               message = ''Processing failed: '' @ exn_str e,
               logs = Some (logs_of (job st))\<rparr> \<and>
       tracking_files (snd (process_video_task env vid path srv)) = tracking_files srv)"
proof (intro conjI impI allI)
  assume n: "\<not> cap_opened (video_capture env path)"
  note c = task_completed [OF assms process_video_unopened [OF n]]
  show "\<exists>j. processing_status (snd (process_video_task env vid path srv)) vid = Some j \<and>
            status j = ''completed'' \<and> progress j = 100"
    by (simp add: c)
  show "tracking_files (snd (process_video_task env vid path srv)) (tracking_path vid) =
         Some \<lparr>art_video_id = vid, art_fps = cap_fps (video_capture env path),
               art_total_frames = py_int (cap_frame_count (video_capture env path)),
               art_tracks_by_frame = Map.empty, art_object_products = Map.empty\<rparr>"
    by (simp add: c)
next
  fix e st files
  assume p: "process_video env task_callbacks vid path
         (if logs j0 = None then j0\<lparr>logs := Some []\<rparr> else j0)
         (srv_world srv) (tracking_files srv) = (Inl e, st, files)"
  note f = task_failed [OF assms p]
  show "processing_status (snd (process_video_task env vid path srv)) vid =
         Some \<lparr>status = ''failed'', progress = 0,
               message = ''Processing failed: '' @ exn_str e,
               logs = Some (logs_of (job st))\<rparr>"
    by (simp add: f)
  show "tracking_files (snd (process_video_task env vid path srv)) = tracking_files srv"
    by (simp add: f)
qed

theorem video_open_failure_witness:
  "processing_status registered_server ''v1'' = Some starting_record \<and>
   \<not> cap_opened (video_capture unopened_env ''./data/videos/v1.mov'') \<and>
   status (the (processing_status
     (snd (process_video_task unopened_env ''v1'' ''./data/videos/v1.mov'' registered_server))
     ''v1'')) = ''completed'' \<and>
   tracking_files
     (snd (process_video_task unopened_env ''v1'' ''./data/videos/v1.mov'' registered_server))
     (tracking_path ''v1'') = Some (empty_artifact ''v1'') \<and>
   isl (fst (process_video zero_fps_env task_callbacks ''v1'' ''./data/videos/v1.mov''
     (if logs starting_record = None then starting_record\<lparr>logs := Some []\<rparr> else starting_record)
     (srv_world registered_server) (tracking_files registered_server))) \<and>
   status (the (processing_status
     (snd (process_video_task zero_fps_env ''v1'' ''./data/videos/v1.mov'' registered_server))
     ''v1'')) = ''failed'' \<and>
   tracking_files
     (snd (process_video_task zero_fps_env ''v1'' ''./data/videos/v1.mov'' registered_server))
     = tracking_files registered_server"
proof -
  let ?p = "''./data/videos/v1.mov''"
  note U = video_open_failure [OF registered_v1, of unopened_env ?p]
  note Z = video_open_failure [OF registered_v1, of zero_fps_env ?p]
  from unopened_env_capture [of ?p] have n: "\<not> cap_opened (video_capture unopened_env ?p)" by simp
  from U [THEN conjunct1, rule_format, OF n] unopened_env_capture [of ?p]
  have u: "status (the (processing_status
       (snd (process_video_task unopened_env ''v1'' ?p registered_server)) ''v1'')) = ''completed''"
    "tracking_files (snd (process_video_task unopened_env ''v1'' ?p registered_server))
       (tracking_path ''v1'') = Some (empty_artifact ''v1'')"
    by (auto simp: empty_artifact_def)
  from zero_fps_env_raises obtain e st where
    pv: "process_video zero_fps_env task_callbacks ''v1'' ?p
     (if logs starting_record = None then starting_record\<lparr>logs := Some []\<rparr> else starting_record)
     (srv_world registered_server) (tracking_files registered_server)
       = (Inl e, st, tracking_files registered_server)" by blast
  from Z [THEN conjunct2, rule_format, OF pv]
  have z: "status (the (processing_status
       (snd (process_video_task zero_fps_env ''v1'' ?p registered_server)) ''v1'')) = ''failed''"
    "tracking_files (snd (process_video_task zero_fps_env ''v1'' ?p registered_server))
       = tracking_files registered_server"
    by auto
  from pv have i: "isl (fst (process_video zero_fps_env task_callbacks ''v1'' ?p
     (if logs starting_record = None then starting_record\<lparr>logs := Some []\<rparr> else starting_record)
     (srv_world registered_server) (tracking_files registered_server)))" by simp
  from registered_v1 n u z i show ?thesis by blast
qed

text \<open>
  The claim as stated fails for a video that cannot be opened: the job of the example ends
  \<open>completed\<close>, not \<open>failed\<close>, and its tracking artifact exists.
\<close>

theorem video_open_failure_counterexample:
  "\<not> cap_opened (video_capture unopened_env ''./data/videos/v1.mov'') \<and>
   status (the (processing_status
     (snd (process_video_task unopened_env ''v1'' ''./data/videos/v1.mov'' registered_server))
     ''v1'')) = ''completed'' \<and>
   status (the (processing_status
     (snd (process_video_task unopened_env ''v1'' ''./data/videos/v1.mov'' registered_server))
     ''v1'')) \<noteq> ''failed'' \<and>
   tracking_files
     (snd (process_video_task unopened_env ''v1'' ''./data/videos/v1.mov'' registered_server))
     (tracking_path ''v1'') \<noteq> None"
proof -
  let ?p = "''./data/videos/v1.mov''"
  from unopened_env_capture [of ?p] have n: "\<not> cap_opened (video_capture unopened_env ?p)" by simp
  note c = task_completed [OF registered_v1 process_video_unopened [OF n]]
  from n show ?thesis by (simp add: c)
qed

text \<open>
  C4, as amended. Collaborator failures are contained only inside
  \<open>_process_tracked_object\<close>: when the segmentation step fails, or when the first product
  search fails, the failure is caught and the degraded result (detection method
  \<open>owlvit\<close>, no mask url) is built from a second product search; the segmentation is not
  called again. A failure of that second product search is not caught and leaves
  \<open>_process_tracked_object\<close>. Wherever the frame loop stands, a detector failure on an
  analyzed frame, and an enrichment that raises for a track not yet enriched, leave
  \<open>process_video\<close> and move the job to \<open>failed\<close> with the error text in its message.
\<close>

theorem collaborator_failures:
  "(segment_with_box env frame (det_bbox det) vid ts w = (Inl e, w1) \<and>
    search_products env (det_label det) 1 w1 = (Inr ps, w2) \<longrightarrow>
      process_tracked_object env frame det tid vid ts w =
        (Inr \<lparr>info_track_id = tid, info_category = det_label det,
              info_detection_method = ''owlvit'', info_mask_url = None,
              info_product = first_product ps\<rparr>, w2)) \<and>
   (segment_with_box env frame (det_bbox det) vid ts w = (Inr m, w1) \<and>
    search_products env (det_label det) 1 w1 = (Inl e, w2) \<and>
    search_products env (det_label det) 1 w2 = (Inr ps, w3) \<longrightarrow>
      process_tracked_object env frame det tid vid ts w =
        (Inr \<lparr>info_track_id = tid, info_category = det_label det,
              info_detection_method = ''owlvit'', info_mask_url = None,
              info_product = first_product ps\<rparr>, w3)) \<and>
   (segment_with_box env frame (det_bbox det) vid ts w = (Inr m, w1) \<and>
    search_products env (det_label det) 1 w1 = (Inl e, w2) \<and>
    search_products env (det_label det) 1 w2 = (Inl e2, w3) \<longrightarrow>
      process_tracked_object env frame det tid vid ts w = (Inl e2, w3)) \<and>
   (processing_status srv v = Some j0 \<and> cap_opened (video_capture env path) \<and>
    cap_frames (video_capture env path) = pre @ f # post \<and>
    frames_loop env task_callbacks v (cap_fps (video_capture env path))
      (py_int (cap_frame_count (video_capture env path))) pre 0
      (start_state task_callbacks v (if logs j0 = None then j0\<lparr>logs := Some []\<rparr> else j0)
         (srv_world srv)) = (None, st) \<and>
    is_sampled (cap_fps (video_capture env path)) (length pre) \<and>
    detect_products env f (world st) = (Inl e, w1) \<longrightarrow>
      (\<exists>j. processing_status (snd (process_video_task env v path srv)) v = Some j \<and>
           status j = ''failed'' \<and> message j = ''Processing failed: '' @ exn_str e)) \<and>
   (processing_status srv v = Some j0 \<and> cap_opened (video_capture env path) \<and>
    cap_frames (video_capture env path) = pre @ f # post \<and>
    frames_loop env task_callbacks v (cap_fps (video_capture env path))
      (py_int (cap_frame_count (video_capture env path))) pre 0
      (start_state task_callbacks v (if logs j0 = None then j0\<lparr>logs := Some []\<rparr> else j0)
         (srv_world srv)) = (None, st) \<and>
    is_sampled (cap_fps (video_capture env path)) (length pre) \<and>
    detect_products env f (world st) = (Inr dets, w1) \<and>
    assign_track_ids dets (previous_detections st) (next_track_id st) = (dpre @ d # dpost, n) \<and>
    detections_loop env task_callbacks v (cap_fps (video_capture env path)) f (length pre) dpre []
      (st\<lparr>world := w1, next_track_id := n,
          tracker_out := tracker_out st @ [(length pre, dpre @ d # dpost)]\<rparr>) = (None, fds, st2) \<and>
    object_products st2 (track_id d) = None \<and>
    timestamp_ms (length pre) (cap_fps (video_capture env path)) = Inr t \<and>
    process_tracked_object env f d (track_id d) v t (world st2) = (Inl e2, w4) \<longrightarrow>
      (\<exists>j. processing_status (snd (process_video_task env v path srv)) v = Some j \<and>
           status j = ''failed'' \<and> message j = ''Processing failed: '' @ exn_str e2))"
proof (intro conjI impI)
  assume a: "processing_status srv v = Some j0 \<and> cap_opened (video_capture env path) \<and>
    cap_frames (video_capture env path) = pre @ f # post \<and>
    frames_loop env task_callbacks v (cap_fps (video_capture env path))
      (py_int (cap_frame_count (video_capture env path))) pre 0
      (start_state task_callbacks v (if logs j0 = None then j0\<lparr>logs := Some []\<rparr> else j0)
         (srv_world srv)) = (None, st) \<and>
    is_sampled (cap_fps (video_capture env path)) (length pre) \<and>
    detect_products env f (world st) = (Inl e, w1)"
  let ?j1 = "if logs j0 = None then j0\<lparr>logs := Some []\<rparr> else j0"
  from a have "fst (analyze_frame env task_callbacks v (cap_fps (video_capture env path))
               (py_int (cap_frame_count (video_capture env path))) f (length pre) st) = Some e"
    by (simp add: analyze_frame_detector_fails)
  with a have "fst (run_frames env task_callbacks v path ?j1 (srv_world srv)) = Some e"
    by (intro run_frames_reaches [where pre = pre and f = f and post = post and st = st]) auto
  with a show "\<exists>j. processing_status (snd (process_video_task env v path srv)) v = Some j \<and>
           status j = ''failed'' \<and> message j = ''Processing failed: '' @ exn_str e"
    by (intro task_fails_when_run_raises) auto
next
  assume a: "processing_status srv v = Some j0 \<and> cap_opened (video_capture env path) \<and>
    cap_frames (video_capture env path) = pre @ f # post \<and>
    frames_loop env task_callbacks v (cap_fps (video_capture env path))
      (py_int (cap_frame_count (video_capture env path))) pre 0
      (start_state task_callbacks v (if logs j0 = None then j0\<lparr>logs := Some []\<rparr> else j0)
         (srv_world srv)) = (None, st) \<and>
    is_sampled (cap_fps (video_capture env path)) (length pre) \<and>
    detect_products env f (world st) = (Inr dets, w1) \<and>
    assign_track_ids dets (previous_detections st) (next_track_id st) = (dpre @ d # dpost, n) \<and>
    detections_loop env task_callbacks v (cap_fps (video_capture env path)) f (length pre) dpre []
      (st\<lparr>world := w1, next_track_id := n,
          tracker_out := tracker_out st @ [(length pre, dpre @ d # dpost)]\<rparr>) = (None, fds, st2) \<and>
    object_products st2 (track_id d) = None \<and>
    timestamp_ms (length pre) (cap_fps (video_capture env path)) = Inr t \<and>
    process_tracked_object env f d (track_id d) v t (world st2) = (Inl e2, w4)"
  let ?j1 = "if logs j0 = None then j0\<lparr>logs := Some []\<rparr> else j0"
  from a have "fst (analyze_frame env task_callbacks v (cap_fps (video_capture env path))
               (py_int (cap_frame_count (video_capture env path))) f (length pre) st) = Some e2"
    by (elim conjE) (rule analyze_frame_enrichment_raises)
  with a have "fst (run_frames env task_callbacks v path ?j1 (srv_world srv)) = Some e2"
    by (intro run_frames_reaches [where pre = pre and f = f and post = post and st = st]) auto
  with a show "\<exists>j. processing_status (snd (process_video_task env v path srv)) v = Some j \<and>
           status j = ''failed'' \<and> message j = ''Processing failed: '' @ exn_str e2"
    by (intro task_fails_when_run_raises) auto
qed (simp_all add: process_tracked_object_def fallback_info_def)

theorem collaborator_failures_witness:
  "segment_with_box failing_segmenter_env 0 (det_bbox (moving_detection 0)) ''v1'' 0 ()
     = (Inl (CollaboratorError ''SAM failed''), ()) \<and>
   search_products failing_segmenter_env (det_label (moving_detection 0)) 1 () = (Inr [], ()) \<and>
   process_tracked_object failing_segmenter_env 0 (moving_detection 0) 1 ''v1'' 0 () =
     (Inr \<lparr>info_track_id = 1, info_category = ''cup'', info_detection_method = ''owlvit'',
           info_mask_url = None, info_product = None\<rparr>, ()) \<and>
   segment_with_box flaky_search_env 0 (det_bbox (moving_detection 0)) ''v1'' 0 0
     = (Inr ''/static/crops/mask.png'', 0) \<and>
   search_products flaky_search_env (det_label (moving_detection 0)) 1 0
     = (Inl (CollaboratorError ''search down''), 1) \<and>
   search_products flaky_search_env (det_label (moving_detection 0)) 1 1 = (Inr [], 2) \<and>
   process_tracked_object flaky_search_env 0 (moving_detection 0) 1 ''v1'' 0 0 =
     (Inr \<lparr>info_track_id = 1, info_category = ''cup'', info_detection_method = ''owlvit'',
           info_mask_url = None, info_product = None\<rparr>, 2) \<and>
   segment_with_box failing_search_env 0 (det_bbox (moving_detection 0)) ''v1'' 0 ()
     = (Inr ''/static/crops/mask.png'', ()) \<and>
   search_products failing_search_env (det_label (moving_detection 0)) 1 ()
     = (Inl (CollaboratorError ''search down''), ()) \<and>
   process_tracked_object failing_search_env 0 (moving_detection 0) 1 ''v1'' 0 ()
     = (Inl (CollaboratorError ''search down''), ()) \<and>
   processing_status registered_server ''v1'' = Some starting_record \<and>
   cap_opened (video_capture failing_detector_env ''./data/videos/v1.mov'') \<and>
   cap_frames (video_capture failing_detector_env ''./data/videos/v1.mov'') = 0 # [1..<20] \<and>
   detect_products failing_detector_env 0 (srv_world registered_server)
     = (Inl (CollaboratorError ''detector down''), ()) \<and>
   (\<exists>j. processing_status
          (snd (process_video_task failing_detector_env ''v1'' ''./data/videos/v1.mov''
                  registered_server)) ''v1'' = Some j \<and>
        status j = ''failed'' \<and> message j = ''Processing failed: detector down'') \<and>
   cap_opened (video_capture failing_search_env ''./data/videos/v1.mov'') \<and>
   cap_fps (video_capture failing_search_env ''./data/videos/v1.mov'') \<noteq> 0 \<and>
   cap_frames (video_capture failing_search_env ''./data/videos/v1.mov'') = 0 # [1..<20] \<and>
   detect_products failing_search_env 0 (srv_world registered_server)
     = (Inr (moving_detection 0 # []), ()) \<and>
   (\<exists>j. processing_status
          (snd (process_video_task failing_search_env ''v1'' ''./data/videos/v1.mov''
                  registered_server)) ''v1'' = Some j \<and>
        status j = ''failed'' \<and> message j = ''Processing failed: search down'')"
proof -
  let ?p = "''./data/videos/v1.mov''"
  let ?d = "moving_detection 0"
  have lab: "det_label ?d = ''cup''" by (simp add: moving_detection_def)
  have s1: "segment_with_box failing_segmenter_env 0 (det_bbox ?d) ''v1'' 0 ()
     = (Inl (CollaboratorError ''SAM failed''), ())"
    and s2: "search_products failing_segmenter_env (det_label ?d) 1 () = (Inr [], ())"
    by (simp_all add: failing_segmenter_env_def example_env_def)
  have f1: "segment_with_box flaky_search_env 0 (det_bbox ?d) ''v1'' 0 0
     = (Inr ''/static/crops/mask.png'', 0)"
    and f2: "search_products flaky_search_env (det_label ?d) 1 0
     = (Inl (CollaboratorError ''search down''), 1)"
    and f3: "search_products flaky_search_env (det_label ?d) 1 1 = (Inr [], 2)"
    by (simp_all add: flaky_search_env_def)
  have q1: "segment_with_box failing_search_env 0 (det_bbox ?d) ''v1'' 0 ()
     = (Inr ''/static/crops/mask.png'', ())"
    and q2: "search_products failing_search_env (det_label ?d) 1 ()
     = (Inl (CollaboratorError ''search down''), ())"
    by (simp_all add: failing_search_env_def example_env_def)
  let ?j1 = "if logs starting_record = None then starting_record\<lparr>logs := Some []\<rparr>
             else starting_record"
  let ?dst = "start_state task_callbacks ''v1'' ?j1 (srv_world registered_server) :: unit pv_state"
  let ?td = "with_track_id (moving_detection 0) 1"
  have d1: "cap_opened (video_capture failing_detector_env ?p)"
    and d2: "cap_frames (video_capture failing_detector_env ?p) = 0 # [1..<20]"
    and d2': "cap_frames (video_capture failing_detector_env ?p) = [] @ 0 # [1..<20]"
    and d3: "detect_products failing_detector_env 0 (srv_world registered_server)
     = (Inl (CollaboratorError ''detector down''), ())"
    and d3': "detect_products failing_detector_env 0 (world ?dst)
     = (Inl (CollaboratorError ''detector down''), ())"
    by (simp_all add: failing_detector_env_def example_env_def example_frames)
       (simp add: example_capture_def)
  have d4: "frames_loop failing_detector_env task_callbacks ''v1''
      (cap_fps (video_capture failing_detector_env ?p))
      (py_int (cap_frame_count (video_capture failing_detector_env ?p))) [] 0 ?dst = (None, ?dst)"
    by simp
  have d5: "is_sampled (cap_fps (video_capture failing_detector_env ?p)) (length ([] :: nat list))"
    by simp
  have e1: "cap_opened (video_capture failing_search_env ?p)"
    and e2: "cap_fps (video_capture failing_search_env ?p) \<noteq> 0"
    and e3: "cap_frames (video_capture failing_search_env ?p) = 0 # [1..<20]"
    and e3': "cap_frames (video_capture failing_search_env ?p) = [] @ 0 # [1..<20]"
    and e4: "detect_products failing_search_env 0 (srv_world registered_server)
     = (Inr (?d # []), ())"
    and e4': "detect_products failing_search_env 0 (world ?dst) = (Inr [?d], ())"
    by (simp_all add: failing_search_env_def example_env_def example_frames)
       (simp_all add: example_capture_def)
  have e5: "frames_loop failing_search_env task_callbacks ''v1''
      (cap_fps (video_capture failing_search_env ?p))
      (py_int (cap_frame_count (video_capture failing_search_env ?p))) [] 0 ?dst = (None, ?dst)"
    by simp
  have e6: "is_sampled (cap_fps (video_capture failing_search_env ?p)) (length ([] :: nat list))"
    by simp
  have e7: "assign_track_ids [?d] (previous_detections ?dst) (next_track_id ?dst)
              = ([] @ ?td # [], 2)"
    by (simp add: start_state_def initial_state_def Let_def assign_track_ids_def)
  let ?st1 = "?dst\<lparr>world := (), next_track_id := 2,
                 tracker_out := tracker_out ?dst @ [(length ([] :: nat list), [] @ ?td # [])]\<rparr>"
  have e8: "detections_loop failing_search_env task_callbacks ''v1''
              (cap_fps (video_capture failing_search_env ?p)) 0 (length ([] :: nat list)) [] [] ?st1
              = (None, [], ?st1)"
    by simp
  have e9: "object_products ?st1 (track_id ?td) = None"
    by (simp add: start_state_def initial_state_def Let_def)
  have e10: "timestamp_ms (length ([] :: nat list)) (cap_fps (video_capture failing_search_env ?p))
               = Inr 0"
    using e2 by (simp add: timestamp_ms_def py_int_def)
  have e11: "process_tracked_object failing_search_env 0 ?td (track_id ?td) ''v1'' 0 (world ?st1)
               = (Inl (CollaboratorError ''search down''), ())"
    by (simp add: process_tracked_object_def fallback_info_def failing_search_env_def
          example_env_def)
  have A: "process_tracked_object failing_segmenter_env 0 ?d 1 ''v1'' 0 () =
     (Inr \<lparr>info_track_id = 1, info_category = det_label ?d, info_detection_method = ''owlvit'',
           info_mask_url = None, info_product = first_product []\<rparr>, ())"
    by (rule collaborator_failures [THEN conjunct1, rule_format]) (rule conjI [OF s1 s2])
  have B: "process_tracked_object flaky_search_env 0 ?d 1 ''v1'' 0 0 =
     (Inr \<lparr>info_track_id = 1, info_category = det_label ?d, info_detection_method = ''owlvit'',
           info_mask_url = None, info_product = first_product []\<rparr>, 2)"
    by (rule collaborator_failures [THEN conjunct2, THEN conjunct1, rule_format])
       (rule conjI [OF f1 conjI [OF f2 f3]])
  have q2': "search_products failing_search_env (det_label ?d) 1 ()
     = (Inl (CollaboratorError ''search down''), ()) \<and>
     search_products failing_search_env (det_label ?d) 1 ()
     = (Inl (CollaboratorError ''search down''), ())" using q2 by simp
  have C: "process_tracked_object failing_search_env 0 ?d 1 ''v1'' 0 ()
     = (Inl (CollaboratorError ''search down''), ())"
    by (rule collaborator_failures [THEN conjunct2, THEN conjunct2, THEN conjunct1, rule_format])
       (rule conjI [OF q1 q2'])
  have D: "\<exists>j. processing_status
          (snd (process_video_task failing_detector_env ''v1'' ?p registered_server)) ''v1'' = Some j \<and>
        status j = ''failed'' \<and>
        message j = ''Processing failed: '' @ exn_str (CollaboratorError ''detector down'')"
    by (rule collaborator_failures [THEN conjunct2, THEN conjunct2, THEN conjunct2, THEN conjunct1,
          rule_format])
       (rule conjI [OF registered_v1 conjI [OF d1 conjI [OF d2' conjI [OF d4 conjI [OF d5 d3']]]]])
  have E: "\<exists>j. processing_status
          (snd (process_video_task failing_search_env ''v1'' ?p registered_server)) ''v1'' = Some j \<and>
        status j = ''failed'' \<and>
        message j = ''Processing failed: '' @ exn_str (CollaboratorError ''search down'')"
    by (rule collaborator_failures [THEN conjunct2, THEN conjunct2, THEN conjunct2, THEN conjunct2,
          rule_format])
       (rule conjI [OF registered_v1 conjI [OF e1 conjI [OF e3' conjI [OF e5 conjI [OF e6
          conjI [OF e4' conjI [OF e7 conjI [OF e8 conjI [OF e9 conjI [OF e10 e11]]]]]]]]]])
  from A B C D E s1 s2 f1 f2 f3 q1 q2 d1 d2 d3 e1 e2 e3 e4 registered_v1 lab
  show ?thesis by (simp add: first_product_def)
qed

text \<open>
  The claim as stated fails for the detector: when it raises on the first frame, the job
  of the example ends \<open>failed\<close> with the detector's error in its message.
\<close>

theorem collaborator_failures_counterexample:
  "detect_products failing_detector_env 0 (srv_world registered_server)
     = (Inl (CollaboratorError ''detector down''), ()) \<and>
   status (the (processing_status
     (snd (process_video_task failing_detector_env ''v1'' ''./data/videos/v1.mov'' registered_server))
     ''v1'')) = ''failed'' \<and>
   message (the (processing_status
     (snd (process_video_task failing_detector_env ''v1'' ''./data/videos/v1.mov'' registered_server))
     ''v1'')) = ''Processing failed: detector down''"
proof -
  let ?p = "''./data/videos/v1.mov''"
  let ?j1 = "if logs starting_record = None then starting_record\<lparr>logs := Some []\<rparr>
             else starting_record"
  have d: "detect_products failing_detector_env 0 (srv_world registered_server)
     = (Inl (CollaboratorError ''detector down''), ())"
    by (simp add: failing_detector_env_def)
  have o: "cap_opened (video_capture failing_detector_env ?p)"
    by (simp add: failing_detector_env_def example_env_def example_capture_def)
  have f: "cap_frames (video_capture failing_detector_env ?p) = 0 # [1..<20]"
    by (simp add: failing_detector_env_def example_env_def example_frames)
  have "fst (analyze_frame failing_detector_env task_callbacks ''v1''
               (cap_fps (video_capture failing_detector_env ?p))
               (py_int (cap_frame_count (video_capture failing_detector_env ?p))) 0 0
               (start_state task_callbacks ''v1'' ?j1 (srv_world registered_server)))
          = Some (CollaboratorError ''detector down'')"
    using d by (simp add: analyze_frame_detector_fails)
  from run_frames_first [OF o f this]
  have "fst (run_frames failing_detector_env task_callbacks ''v1'' ?p ?j1 (srv_world registered_server))
          = Some (CollaboratorError ''detector down'')" .
  from task_fails_when_run_raises [OF registered_v1 this] d show ?thesis by auto
qed




text \<open>
  C6. Single-flight start (for a video whose file is found): when the existing record of
  the video has status \<open>processing\<close>, \<open>start_processing\<close> returns that record and changes
  nothing, so no second run is launched; otherwise it registers the fresh record
  (processing, progress 0, the starting message, empty log) and hands one background task
  over. A second call after any successful call finds the record processing, returns it
  and launches nothing: one run, one sequence of track ids.
\<close>

theorem single_flight_start:
  "find_video_path (video_files srv) vid = Some path \<Longrightarrow>
   (\<forall>st. processing_status srv vid = Some st \<and> status st = ''processing'' \<longrightarrow>
      start_processing vid srv = Inr (AlreadyProcessing ''Video is already being processed'' st, srv)) \<and>
   ((\<nexists>st. processing_status srv vid = Some st \<and> status st = ''processing'') \<longrightarrow>
      start_processing vid srv =
        Inr (Started ''Video processing started'' vid,
             srv\<lparr>processing_status := (processing_status srv)(vid \<mapsto>
                    \<lparr>status = ''processing'', progress = 0,
                     message = ''Starting video processing...'', logs = Some []\<rparr>),
                 background_tasks := background_tasks srv @ [(vid, path)]\<rparr>)) \<and>
   (\<forall>r srv1. start_processing vid srv = Inr (r, srv1) \<longrightarrow>
      (\<exists>st. processing_status srv1 vid = Some st \<and>
            start_processing vid srv1 =
              Inr (AlreadyProcessing ''Video is already being processed'' st, srv1)))"
proof (intro conjI allI impI)
  fix r srv1
  assume a: "find_video_path (video_files srv) vid = Some path"
    and s: "start_processing vid srv = Inr (r, srv1)"
  from start_processing_twice [OF s] obtain st
    where st: "processing_status srv1 vid = Some st" "status st = ''processing''"
      "video_files srv1 = video_files srv" by blast
  with a have "start_processing vid srv1 =
      Inr (AlreadyProcessing ''Video is already being processed'' st, srv1)"
    by (simp add: start_processing_def)
  with st show "\<exists>st. processing_status srv1 vid = Some st \<and>
            start_processing vid srv1 =
              Inr (AlreadyProcessing ''Video is already being processed'' st, srv1)"
    by blast
qed (auto simp: start_processing_def starting_record_def split: option.splits)

theorem single_flight_start_witness:
  "find_video_path (video_files example_server) ''v1'' = Some ''./data/videos/v1.mov'' \<and>
   (\<nexists>st. processing_status example_server ''v1'' = Some st \<and> status st = ''processing'') \<and>
   start_processing ''v1'' example_server =
     Inr (Started ''Video processing started'' ''v1'',
          example_server\<lparr>processing_status := [''v1'' \<mapsto> starting_record],
            background_tasks := [(''v1'', ''./data/videos/v1.mov'')]\<rparr>) \<and>
   processing_status
     (example_server\<lparr>processing_status := [''v1'' \<mapsto> starting_record],
        background_tasks := [(''v1'', ''./data/videos/v1.mov'')]\<rparr>) ''v1'' = Some starting_record \<and>
   status starting_record = ''processing'' \<and>
   start_processing ''v1''
     (example_server\<lparr>processing_status := [''v1'' \<mapsto> starting_record],
        background_tasks := [(''v1'', ''./data/videos/v1.mov'')]\<rparr>) =
     Inr (AlreadyProcessing ''Video is already being processed'' starting_record,
          example_server\<lparr>processing_status := [''v1'' \<mapsto> starting_record],
            background_tasks := [(''v1'', ''./data/videos/v1.mov'')]\<rparr>)"
proof -
  have f: "find_video_path (video_files example_server) ''v1'' = Some ''./data/videos/v1.mov''"
    by (simp add: find_video_path_def example_server_def video_extensions_def path_join_def
          STORAGE_PATH_def)
  have n: "processing_status example_server ''v1'' = None"
    by (simp add: example_server_def)
  have f2: "find_video_path (video_files
      (example_server\<lparr>processing_status := [''v1'' \<mapsto> starting_record],
        background_tasks := [(''v1'', ''./data/videos/v1.mov'')]\<rparr>)) ''v1''
      = Some ''./data/videos/v1.mov''"
    using f by simp
  show ?thesis
    using single_flight_start [OF f] single_flight_start [OF f2] f n
    by (simp add: starting_record_def example_server_def)
qed

text \<open>
  C7. Bounded FIFO log: \<open>log_message\<close> appends the line and keeps the most recent 50
  entries; the log never has more than 50 entries afterwards; appending to a log of 50
  drops exactly the oldest entry and keeps the others in order.
\<close>

theorem bounded_fifo_log:
  "logs_of (log_message m st) = drop (length (logs_of st @ [m]) - 50) (logs_of st @ [m]) \<and>
   length (logs_of (log_message m st)) \<le> 50 \<and>
   (length (logs_of st) = 50 \<longrightarrow> logs_of (log_message m st) = tl (logs_of st) @ [m])"
proof -
  have "length (logs_of st) = 50 \<Longrightarrow> drop (Suc 0) (logs_of st) = tl (logs_of st)"
    by (simp add: drop_Suc)
  then show ?thesis
    by (auto simp: log_message_logs)
qed

theorem bounded_fifo_log_witness:
  "length (logs_of \<lparr>status = ''processing'', progress = 0, message = ''m'',
                    logs = Some (''oldest'' # replicate 49 ''x'')\<rparr>) = 50 \<and>
   logs_of (log_message ''new'' \<lparr>status = ''processing'', progress = 0, message = ''m'',
                    logs = Some (''oldest'' # replicate 49 ''x'')\<rparr>)
     = replicate 49 ''x'' @ [''new'']"
  using bounded_fifo_log [of "''new''" "\<lparr>status = ''processing'', progress = 0, message = ''m'',
                    logs = Some (''oldest'' # replicate 49 ''x'')\<rparr>"]
  by (simp add: logs_of_def)

text \<open>
  C8. Status query fallback: the in-memory record is returned when there is one; with none
  but a tracking file for the video, the answer is a synthesized record with status
  \<open>completed\<close> and progress 100; with neither, the query signals not found (404).
\<close>

theorem status_query_fallback:
  "(\<forall>st. processing_status srv vid = Some st \<longrightarrow>
      get_processing_status vid srv =
        Inr \<lparr>resp_video_id = vid, resp_status = status st, resp_progress = progress st,
             resp_message = message st, resp_logs = logs_of st\<rparr>) \<and>
   (processing_status srv vid = None \<and> tracking_files srv (tracking_path vid) \<noteq> None \<longrightarrow>
      get_processing_status vid srv =
        Inr \<lparr>resp_video_id = vid, resp_status = ''completed'', resp_progress = 100,
             resp_message = ''Video processing completed'', resp_logs = []\<rparr>) \<and>
   (processing_status srv vid = None \<and> tracking_files srv (tracking_path vid) = None \<longrightarrow>
      get_processing_status vid srv = Inl (HTTPException 404 ''Video not found or not processed''))"
  by (simp add: get_processing_status_def)

theorem status_query_fallback_witness:
  "processing_status (example_server\<lparr>processing_status := [''v1'' \<mapsto> starting_record]\<rparr>) ''v1''
     = Some starting_record \<and>
   resp_status (projr (get_processing_status ''v1''
      (example_server\<lparr>processing_status := [''v1'' \<mapsto> starting_record]\<rparr>))) = ''processing'' \<and>
   processing_status example_server ''v0'' = None \<and>
   tracking_files example_server (tracking_path ''v0'') \<noteq> None \<and>
   get_processing_status ''v0'' example_server =
     Inr \<lparr>resp_video_id = ''v0'', resp_status = ''completed'', resp_progress = 100,
          resp_message = ''Video processing completed'', resp_logs = []\<rparr> \<and>
   processing_status example_server ''v2'' = None \<and>
   tracking_files example_server (tracking_path ''v2'') = None \<and>
   get_processing_status ''v2'' example_server
     = Inl (HTTPException 404 ''Video not found or not processed'')"
  using status_query_fallback [of "example_server\<lparr>processing_status := [''v1'' \<mapsto> starting_record]\<rparr>" "''v1''"]
    status_query_fallback [of example_server "''v0''"]
    status_query_fallback [of example_server "''v2''"]
  by (simp add: example_server_def starting_record_def tracking_path_def path_join_def
        STORAGE_PATH_def)



text \<open>
  C10. Zero-fps partiality: when the opened capture reports 0 fps and delivers at least one
  frame, \<open>process_video\<close> raises while it handles frame 0, the first analyzed frame, so
  no artifact is written and the job record becomes \<open>failed\<close> with the error text in its
  message; when the detector succeeds on that frame the error is the division by zero of
  the timestamp computation.
\<close>

theorem zero_fps_fails_job:
  assumes "processing_status srv vid = Some j0"
    and "cap_opened (video_capture env path)"
    and "cap_fps (video_capture env path) = 0"
    and "cap_frames (video_capture env path) = f # fs"
  shows "\<exists>e. (\<exists>st. process_video env task_callbacks vid path
                     (if logs j0 = None then j0\<lparr>logs := Some []\<rparr> else j0)
                     (srv_world srv) (tracking_files srv) = (Inl e, st, tracking_files srv)) \<and>
             (\<forall>dets w. detect_products env f (srv_world srv) = (Inr dets, w) \<longrightarrow>
                  e = ZeroDivisionError ''float division by zero'') \<and>
             (\<exists>j. processing_status (snd (process_video_task env vid path srv)) vid = Some j \<and>
                  status j = ''failed'' \<and> message j = ''Processing failed: '' @ exn_str e) \<and>
             tracking_files (snd (process_video_task env vid path srv)) = tracking_files srv"
proof -
  let ?j1 = "if logs j0 = None then j0\<lparr>logs := Some []\<rparr> else j0"
  let ?st0 = "start_state task_callbacks vid ?j1 (srv_world srv)"
  from frames_loop_zero_fps [of env task_callbacks vid
      "py_int (cap_frame_count (video_capture env path))" f fs ?st0]
  obtain e where e: "fst (frames_loop env task_callbacks vid 0
        (py_int (cap_frame_count (video_capture env path))) (f # fs) 0 ?st0) = Some e"
    and z: "\<forall>dets w. detect_products env f (srv_world srv) = (Inr dets, w) \<longrightarrow>
          e = ZeroDivisionError ''float division by zero''" by auto
  from e assms(2-4) have "fst (run_frames env task_callbacks vid path ?j1 (srv_world srv)) = Some e"
    by (simp add: run_frames_def delivered_frames_def Let_def)
  from process_video_raises [OF this, of "tracking_files srv"] obtain st
    where pv: "process_video env task_callbacks vid path ?j1 (srv_world srv) (tracking_files srv)
      = (Inl e, st, tracking_files srv)" by blast
  from task_failed [OF assms(1) pv] pv z show ?thesis
    by (intro exI [of _ e]) auto
qed

theorem zero_fps_fails_job_witness:
  "processing_status registered_server ''v1'' = Some starting_record \<and>
   cap_opened (video_capture zero_fps_env ''./data/videos/v1.mov'') \<and>
   cap_fps (video_capture zero_fps_env ''./data/videos/v1.mov'') = 0 \<and>
   cap_frames (video_capture zero_fps_env ''./data/videos/v1.mov'') = 0 # [1..<20] \<and>
   (\<exists>j. processing_status
          (snd (process_video_task zero_fps_env ''v1'' ''./data/videos/v1.mov'' registered_server))
          ''v1'' = Some j \<and>
        status j = ''failed'' \<and> message j = ''Processing failed: float division by zero'')"
proof -
  have a: "processing_status registered_server ''v1'' = Some starting_record"
    by (simp add: registered_server_def)
  have b: "cap_opened (video_capture zero_fps_env ''./data/videos/v1.mov'')"
    by (simp add: zero_fps_env_def example_env_def example_capture_def)
  have c: "cap_fps (video_capture zero_fps_env ''./data/videos/v1.mov'') = 0"
    by (simp add: zero_fps_env_def example_env_def)
  have "[0..<20] = 0 # [1..<20]"
    by code_simp
  then have d: "cap_frames (video_capture zero_fps_env ''./data/videos/v1.mov'') = 0 # [1..<20]"
    by (simp add: zero_fps_env_def example_env_def example_capture_def)
  have det: "detect_products zero_fps_env 0 (srv_world registered_server)
               = (Inr [moving_detection 0], srv_world registered_server)"
    by (simp add: zero_fps_env_def example_env_def)
  from zero_fps_fails_job [OF a b c d] obtain e j
    where z: "\<forall>dets w. detect_products zero_fps_env 0 (srv_world registered_server) = (Inr dets, w)
                \<longrightarrow> e = ZeroDivisionError ''float division by zero''"
      and j: "processing_status
          (snd (process_video_task zero_fps_env ''v1'' ''./data/videos/v1.mov'' registered_server))
          ''v1'' = Some j" "status j = ''failed''" "message j = ''Processing failed: '' @ exn_str e"
    by blast
  from z det have "e = ZeroDivisionError ''float division by zero''" by blast
  with j have "message j = ''Processing failed: float division by zero''" by simp
  with j a b c d show ?thesis by blast
qed


end
